theory Spec2Isabelle
  imports Complex_Main "HOL-Library.Sublist"
begin

section \<open>Python strings\<close>

text \<open>
  A Python \<open>str\<close> is modelled as a \<open>string\<close>, each \<open>char\<close> standing for one code
  point below 256 (ASCII and Latin-1). \<open>len\<close> is \<open>length\<close>.
\<close>

text \<open>\<open>str.isspace\<close> on one code point below 256: TAB, LF, VT, FF, CR, FS, GS, RS, US,
  SPACE, NEL and NBSP.\<close>

definition is_space :: "char \<Rightarrow> bool" where
  "is_space c = (c \<in> {CHR 0x09, CHR 0x0A, CHR 0x0B, CHR 0x0C, CHR 0x0D,
                       CHR 0x1C, CHR 0x1D, CHR 0x1E, CHR 0x1F, CHR 0x20,
                       CHR 0x85, CHR 0xA0})"

text \<open>\<open>s.strip()\<close>: leading and trailing whitespace removed.\<close>

definition py_strip :: "string \<Rightarrow> string" where
  "py_strip s = rev (dropWhile is_space (rev (dropWhile is_space s)))"

text \<open>\<open>s.split(sep)\<close> for a non-empty separator: the pieces between the non-overlapping
  occurrences of \<open>sep\<close>, found from the left. (Python raises ValueError on an empty
  separator; the program only splits on two-character literals.)\<close>

function py_split :: "string \<Rightarrow> string \<Rightarrow> string list" where
  "py_split sep [] = [[]]"
| "py_split sep (c # cs) =
     (if sep \<noteq> [] \<and> prefix sep (c # cs)
      then [] # py_split sep (drop (length sep) (c # cs))
      else (case py_split sep cs of
              [] \<Rightarrow> [[c]]
            | p # ps \<Rightarrow> (c # p) # ps))"
  by pat_completeness auto
termination
  by (relation "measure (\<lambda>(sep, s). length s)") (auto simp: neq_Nil_conv)

text \<open>The two separators of the chunker: a blank line and full stop plus space.\<close>

definition para_sep :: string where
  "para_sep = [CHR 0x0A, CHR 0x0A]"

definition sent_sep :: string where
  "sent_sep = ''. ''"

section \<open>The chunker: \<open>_split_text\<close>\<close>

text \<open>
  A chunk is the dict \<open>{"id": ..., "text": ..., "metadata": {"index": ...}}\<close>.
  The ids come from \<open>uuid.uuid4()\<close>; the function \<open>uuid\<close> passed to the chunker gives
  the id returned by the \<open>k\<close>-th call of one run (every append makes exactly one call, so
  the call number is the number of chunks appended so far).
\<close>

record chunk =
  chunk_id :: string
  chunk_text :: string
  chunk_index :: nat

text \<open>The loop state: \<open>chunks\<close>, \<open>current_chunk\<close> and \<open>current_size\<close>.\<close>

type_synonym split_state = "chunk list \<times> string \<times> int"

text \<open>\<open>chunks.append({"id": str(uuid.uuid4()), "text": current_chunk.strip(),
  "metadata": {"index": len(chunks)}})\<close>\<close>

definition append_chunk :: "(nat \<Rightarrow> string) \<Rightarrow> chunk list \<Rightarrow> string \<Rightarrow> chunk list" where
  "append_chunk uuid chunks current_chunk =
     chunks @ [\<lparr>chunk_id = uuid (length chunks),
                chunk_text = py_strip current_chunk,
                chunk_index = length chunks\<rparr>]"

text \<open>\<open>if current_chunk: chunks.append(...)\<close>\<close>

definition save_current :: "(nat \<Rightarrow> string) \<Rightarrow> chunk list \<Rightarrow> string \<Rightarrow> chunk list" where
  "save_current uuid chunks current_chunk =
     (if current_chunk \<noteq> [] then append_chunk uuid chunks current_chunk else chunks)"

text \<open>The inner loop \<open>for sentence in sentences\<close>.\<close>

fun sentence_loop :: "(nat \<Rightarrow> string) \<Rightarrow> int \<Rightarrow> string list \<Rightarrow> split_state \<Rightarrow> split_state" where
  "sentence_loop uuid chunk_size [] st = st"
| "sentence_loop uuid chunk_size (s # ss) (chunks, current_chunk, current_size) =
     (let sentence = py_strip s in
      if sentence = [] then
        sentence_loop uuid chunk_size ss (chunks, current_chunk, current_size)
      else if current_size + int (length sentence) \<le> chunk_size then
        sentence_loop uuid chunk_size ss
          (chunks, current_chunk @ sentence @ ''. '', current_size + int (length sentence) + 2)
      else
        sentence_loop uuid chunk_size ss
          (save_current uuid chunks current_chunk, sentence @ ''. '', int (length sentence) + 2))"

text \<open>The outer loop \<open>for paragraph in paragraphs\<close>.\<close>

fun paragraph_loop :: "(nat \<Rightarrow> string) \<Rightarrow> int \<Rightarrow> string list \<Rightarrow> split_state \<Rightarrow> split_state" where
  "paragraph_loop uuid chunk_size [] st = st"
| "paragraph_loop uuid chunk_size (p # ps) (chunks, current_chunk, current_size) =
     (let paragraph = py_strip p in
      if paragraph = [] then
        paragraph_loop uuid chunk_size ps (chunks, current_chunk, current_size)
      else if int (length paragraph) > chunk_size then
        paragraph_loop uuid chunk_size ps
          (sentence_loop uuid chunk_size (py_split sent_sep paragraph)
             (chunks, current_chunk, current_size))
      else if current_size + int (length paragraph) > chunk_size then
        paragraph_loop uuid chunk_size ps
          (save_current uuid chunks current_chunk,
           paragraph @ para_sep, int (length paragraph) + 2)
      else
        paragraph_loop uuid chunk_size ps
          (chunks, current_chunk @ paragraph @ para_sep,
           current_size + int (length paragraph) + 2))"

text \<open>\<open>_split_text(text, chunk_size, chunk_overlap)\<close>. The overlap is accepted and never
  read.\<close>

definition split_text :: "(nat \<Rightarrow> string) \<Rightarrow> string \<Rightarrow> int \<Rightarrow> int \<Rightarrow> chunk list" where
  "split_text uuid text chunk_size chunk_overlap =
     (case paragraph_loop uuid chunk_size (py_split para_sep text) ([], [], 0) of
        (chunks, current_chunk, current_size) \<Rightarrow> save_current uuid chunks current_chunk)"


subsection \<open>Notions used to state the chunker's properties\<close>

text \<open>The invariant of both loops: the chunk at position \<open>i\<close> carries index \<open>i\<close>.\<close>

definition indexed :: "chunk list \<Rightarrow> bool" where
  "indexed chunks = (map chunk_index chunks = [0..<length chunks])"

text \<open>The texts of the chunks a state would give if its accumulator were closed now.\<close>

definition flush_texts :: "split_state \<Rightarrow> string list" where
  "flush_texts st = (case st of (chunks, current_chunk, current_size) \<Rightarrow>
     map chunk_text chunks @ (if current_chunk \<noteq> [] then [py_strip current_chunk] else []))"

text \<open>The pieces of a split, stripped, without the empty ones (the \<open>continue\<close> of both
  loops).\<close>

definition stripped_nonempty :: "string list \<Rightarrow> string list" where
  "stripped_nonempty ss = filter (\<lambda>s. s \<noteq> []) (map py_strip ss)"

text \<open>All non-blank sentences of all non-blank paragraphs of a text, in order.\<close>

definition sentences_of :: "string \<Rightarrow> string list" where
  "sentences_of txt =
     concat (map (\<lambda>paragraph. stripped_nonempty (py_split sent_sep paragraph))
                 (stripped_nonempty (py_split para_sep txt)))"

section \<open>Python numbers\<close>

text \<open>
  A Python \<open>float\<close> is an IEEE double: a finite value, an infinity or NaN. \<open>Finite x\<close>
  is the double whose value is \<open>x\<close>. Comparisons of doubles are exact and are defined
  here. Arithmetic on doubles rounds and overflows, and is not defined here: the
  functions that compute take it from the machine they run on (see below).
\<close>

datatype pyfloat = Finite real | PosInf | NegInf | NaN

text \<open>\<open>a < b\<close> on floats: false as soon as one side is NaN.\<close>

fun fl_lt :: "pyfloat \<Rightarrow> pyfloat \<Rightarrow> bool" where
  "fl_lt NaN b = False"
| "fl_lt a NaN = False"
| "fl_lt (Finite x) (Finite y) = (x < y)"
| "fl_lt NegInf NegInf = False"
| "fl_lt NegInf b = True"
| "fl_lt a NegInf = False"
| "fl_lt PosInf b = False"
| "fl_lt a PosInf = True"

text \<open>\<open>a <= b\<close> on floats.\<close>

definition fl_le :: "pyfloat \<Rightarrow> pyfloat \<Rightarrow> bool" where
  "fl_le a b = (a \<noteq> NaN \<and> b \<noteq> NaN \<and> \<not> fl_lt b a)"

text \<open>The numbers a JSON document holds: unbounded integers and floats.\<close>

datatype pynum = PInt int | PFloat pyfloat

text \<open>\<open>x == 0\<close>\<close>

fun num_is_zero :: "pynum \<Rightarrow> bool" where
  "num_is_zero (PInt n) = (n = 0)"
| "num_is_zero (PFloat (Finite x)) = (x = 0)"
| "num_is_zero (PFloat _) = False"

section \<open>JSON values and the Python operations applied to them\<close>

text \<open>
  What \<open>response.json()\<close> and \<open>json.load\<close> deliver. An object is an association list
  with distinct keys (as \<open>json.loads\<close> builds a dict), in insertion order.
\<close>

datatype json =
    JNull
  | JBool bool
  | JInt int
  | JFloat pyfloat
  | JStr string
  | JList "json list"
  | JDict "(string \<times> json) list"

datatype exn =
    TypeError
  | KeyError
  | IndexError
  | AttributeError
  | JSONDecodeError
  | RequestException
  | OverflowError
  | FileNotFoundError

text \<open>\<open>a in b\<close> on two strings: \<open>a\<close> occurs in \<open>b\<close> as a contiguous piece.\<close>

fun py_in_str :: "string \<Rightarrow> string \<Rightarrow> bool" where
  "py_in_str a [] = (a = [])"
| "py_in_str a (c # cs) = (prefix a (c # cs) \<or> py_in_str a cs)"

text \<open>\<open>str.lower\<close> on one code point below 256: the ASCII capitals and the Latin-1
  capitals (0xC0 to 0xDE without the multiplication sign 0xD7) move up by 32.\<close>

definition lower_char :: "char \<Rightarrow> char" where
  "lower_char c =
     (let n = (of_char c :: nat) in
      if (65 \<le> n \<and> n \<le> 90) \<or> (192 \<le> n \<and> n \<le> 222 \<and> n \<noteq> 215)
      then char_of (n + 32) else c)"

definition py_lower :: "string \<Rightarrow> string" where
  "py_lower s = map lower_char s"

text \<open>Truth value of a JSON value (\<open>not x\<close> is its negation).\<close>

fun py_truthy :: "json \<Rightarrow> bool" where
  "py_truthy JNull = False"
| "py_truthy (JBool b) = b"
| "py_truthy (JInt n) = (n \<noteq> 0)"
| "py_truthy (JFloat r) = (r \<noteq> Finite 0)"
| "py_truthy (JStr s) = (s \<noteq> [])"
| "py_truthy (JList xs) = (xs \<noteq> [])"
| "py_truthy (JDict kvs) = (kvs \<noteq> [])"

text \<open>\<open>len(x)\<close>\<close>

fun py_len :: "json \<Rightarrow> exn + nat" where
  "py_len (JStr s) = Inr (length s)"
| "py_len (JList xs) = Inr (length xs)"
| "py_len (JDict kvs) = Inr (length kvs)"
| "py_len _ = Inl TypeError"

text \<open>\<open>"k" in x\<close> for a string literal \<open>k\<close>: a key of a dict, an element of a list, a
  piece of a string; anything else is not a container.\<close>

fun py_contains_str :: "string \<Rightarrow> json \<Rightarrow> exn + bool" where
  "py_contains_str k (JDict kvs) = Inr (k \<in> set (map fst kvs))"
| "py_contains_str k (JList xs) = Inr (JStr k \<in> set xs)"
| "py_contains_str k (JStr s) = Inr (py_in_str k s)"
| "py_contains_str k _ = Inl TypeError"

text \<open>\<open>x["k"]\<close> for a string literal \<open>k\<close>\<close>

fun py_getitem_str :: "json \<Rightarrow> string \<Rightarrow> exn + json" where
  "py_getitem_str (JDict kvs) k = (case map_of kvs k of None \<Rightarrow> Inl KeyError | Some v \<Rightarrow> Inr v)"
| "py_getitem_str _ k = Inl TypeError"

text \<open>\<open>x[0]\<close>\<close>

fun py_getitem_0 :: "json \<Rightarrow> exn + json" where
  "py_getitem_0 (JList xs) = (case xs of [] \<Rightarrow> Inl IndexError | x # _ \<Rightarrow> Inr x)"
| "py_getitem_0 (JStr s) = (case s of [] \<Rightarrow> Inl IndexError | c # _ \<Rightarrow> Inr (JStr [c]))"
| "py_getitem_0 (JDict kvs) = Inl KeyError"
| "py_getitem_0 _ = Inl TypeError"

text \<open>Iterating over a value: the elements of a list, the characters of a string, the
  keys of a dict.\<close>

fun py_iter :: "json \<Rightarrow> exn + json list" where
  "py_iter (JList xs) = Inr xs"
| "py_iter (JStr s) = Inr (map (\<lambda>c. JStr [c]) s)"
| "py_iter (JDict kvs) = Inr (map (\<lambda>kv. JStr (fst kv)) kvs)"
| "py_iter _ = Inl TypeError"

text \<open>\<open>x.get("k", default)\<close>: only a dict has the method.\<close>

fun py_get :: "json \<Rightarrow> string \<Rightarrow> json \<Rightarrow> exn + json" where
  "py_get (JDict kvs) k d = Inr (case map_of kvs k of None \<Rightarrow> d | Some v \<Rightarrow> v)"
| "py_get _ k d = Inl AttributeError"

text \<open>A JSON value as a number; \<open>bool\<close> is a subclass of \<open>int\<close>.\<close>

fun py_number :: "json \<Rightarrow> pynum option" where
  "py_number (JInt n) = Some (PInt n)"
| "py_number (JFloat r) = Some (PFloat r)"
| "py_number (JBool b) = Some (PInt (if b then 1 else 0))"
| "py_number _ = None"

text \<open>\<open>xs[:k]\<close>: a negative \<open>k\<close> counts from the end.\<close>

definition py_slice_to :: "'a list \<Rightarrow> int \<Rightarrow> 'a list" where
  "py_slice_to xs k =
     (if 0 \<le> k then take (nat k) xs else take (length xs - nat (- k)) xs)"

section \<open>The outside world\<close>

text \<open>The steps of \<open>create_vector_db\<close> at which the operating system can raise.\<close>

datatype io_step =
    Makedirs
  | OpenMetadata
  | DumpMetadata
  | OpenChunks
  | DumpChunks
  | OpenVectors
  | DumpVectors

text \<open>
  Everything the manager reads from outside during one call:
  the environment variable \<open>OPENAI_API_KEY\<close>; the ids \<open>uuid.uuid4()\<close> returns; the
  provider's replies (\<open>None\<close> when \<open>requests.post\<close> or \<open>response.json()\<close> raises), the
  embeddings reply indexed by the offset of the batch it answers; the string returned by
  \<open>_generate_document_summary\<close> (every path of it returns a string and none raises);
  the clock; and the step of \<open>create_vector_db\<close>, if any, at which an I/O error occurs.
\<close>

record world =
  api_key :: "string option"
  uuid4 :: "nat \<Rightarrow> string"
  embeddings_reply :: "nat \<Rightarrow> json option"
  query_reply :: "json option"
  rerank_reply :: "json option"
  summary_text :: string
  now :: string
  io_fault :: "io_step option"

text \<open>\<open>if not api_key\<close>: the variable is unset or empty.\<close>

definition no_key :: "world \<Rightarrow> bool" where
  "no_key w = (api_key w = None \<or> api_key w = Some [])"

section \<open>The embedding adapter: \<open>_generate_vectors\<close>\<close>

text \<open>A stored vector \<open>{"id": ..., "vector": ..., "metadata": {"index": ...}}\<close>; the vector
  is whatever the provider sent under \<open>"embedding"\<close>.\<close>

record vector_entry =
  vec_id :: string
  vec_vector :: json
  vec_index :: nat

text \<open>\<open>[0.0] * 1024\<close>\<close>

definition placeholder_vector :: json where
  "placeholder_vector = JList (replicate 1024 (JFloat (Finite 0)))"

definition placeholder :: "chunk \<Rightarrow> vector_entry" where
  "placeholder c = \<lparr>vec_id = chunk_id c, vec_vector = placeholder_vector, vec_index = chunk_index c\<rparr>"

text \<open>\<open>for chunk in batch_chunks: vectors.append(placeholder)\<close>\<close>

definition placeholders :: "chunk list \<Rightarrow> vector_entry list" where
  "placeholders batch_chunks = map placeholder batch_chunks"

text \<open>The loop \<open>for j, embedding_data in enumerate(response_data["data"])\<close>: the entries it
  appends, and the exception that stopped it, if any. What was appended before the
  exception stays in \<open>vectors\<close>.\<close>

fun data_loop :: "chunk list \<Rightarrow> nat \<Rightarrow> json list \<Rightarrow> vector_entry list \<times> exn option" where
  "data_loop batch_chunks j [] = ([], None)"
| "data_loop batch_chunks j (embedding_data # rest) =
     (if j < length batch_chunks then
        (case py_getitem_str embedding_data ''embedding'' of
           Inl e \<Rightarrow> ([], Some e)
         | Inr v \<Rightarrow>
             (case data_loop batch_chunks (Suc j) rest of
                (vs, r) \<Rightarrow>
                  (\<lparr>vec_id = chunk_id (batch_chunks ! j), vec_vector = v,
                    vec_index = chunk_index (batch_chunks ! j)\<rparr> # vs, r)))
      else data_loop batch_chunks (Suc j) rest)"

text \<open>The body of the batch loop: what one batch appends to \<open>vectors\<close>.\<close>

definition process_batch :: "json option \<Rightarrow> chunk list \<Rightarrow> vector_entry list" where
  "process_batch reply batch_chunks =
     (case reply of
        None \<Rightarrow> placeholders batch_chunks
      | Some response_data \<Rightarrow>
          (case py_contains_str ''data'' response_data of
             Inl e \<Rightarrow> placeholders batch_chunks
           | Inr False \<Rightarrow> placeholders batch_chunks
           | Inr True \<Rightarrow>
               (case py_getitem_str response_data ''data'' of
                  Inl e \<Rightarrow> placeholders batch_chunks
                | Inr d \<Rightarrow>
                    (case py_iter d of
                       Inl e \<Rightarrow> placeholders batch_chunks
                     | Inr items \<Rightarrow>
                         (case data_loop batch_chunks 0 items of
                            (vs, None) \<Rightarrow> vs
                          | (vs, Some e) \<Rightarrow> vs @ placeholders batch_chunks)))))"

text \<open>\<open>for i in range(0, len(chunks), batch_size)\<close> with \<open>batch_size = 20\<close> and
  \<open>batch_chunks = chunks[i:i+batch_size]\<close>.\<close>

function batch_loop :: "(nat \<Rightarrow> json option) \<Rightarrow> nat \<Rightarrow> chunk list \<Rightarrow> vector_entry list" where
  "batch_loop reply i chunks =
     (if i < length chunks
      then process_batch (reply i) (take 20 (drop i chunks)) @ batch_loop reply (i + 20) chunks
      else [])"
  by pat_completeness auto
termination
  by (relation "measure (\<lambda>(reply, i, chunks). length chunks - i)") auto

definition generate_vectors :: "world \<Rightarrow> chunk list \<Rightarrow> vector_entry list" where
  "generate_vectors w chunks =
     (if no_key w then placeholders chunks
      else batch_loop (embeddings_reply w) 0 chunks)"

section \<open>The vector collection store\<close>

text \<open>A file that exists either parses to the value the manager wrote (\<open>Content\<close>) or
  makes \<open>json.load\<close> raise (\<open>Corrupt\<close>: truncated by a failed write, or damaged).\<close>

datatype 'a artifact = Corrupt | Content 'a

record metadata_file =
  original_metadata :: "(string \<times> string) list"
  vector_db_created_at :: string
  md_chunk_size :: int
  md_chunk_overlap :: int
  md_document_summary :: string

text \<open>The directory of one collection: each of the three files is absent or present.\<close>

record collection_dir =
  metadata_json :: "metadata_file artifact option"
  chunks_json :: "chunk list artifact option"
  vectors_json :: "vector_entry list artifact option"

text \<open>The persist directory: document id to collection directory.\<close>

type_synonym store = "string \<Rightarrow> collection_dir option"

definition empty_dir :: collection_dir where
  "empty_dir = \<lparr>metadata_json = None, chunks_json = None, vectors_json = None\<rparr>"

text \<open>\<open>with open(file) as f: json.load(f)\<close>\<close>

fun json_load :: "'a artifact option \<Rightarrow> exn + 'a" where
  "json_load None = Inl FileNotFoundError"
| "json_load (Some Corrupt) = Inl JSONDecodeError"
| "json_load (Some (Content x)) = Inr x"

text \<open>
  \<open>create_vector_db\<close>: the returned flag and the store it leaves behind.
  \<open>os.makedirs(..., exist_ok=True)\<close> keeps an existing directory. Each
  \<open>with open(file, 'w') as f: json.dump(..., f)\<close> is two steps: opening creates or
  truncates the file, dumping fills it. Any exception ends the call with \<open>False\<close> and
  nothing is undone.
\<close>

definition create_vector_db ::
  "world \<Rightarrow> store \<Rightarrow> string \<Rightarrow> string \<Rightarrow> (string \<times> string) list \<Rightarrow> int \<Rightarrow> int \<Rightarrow> bool \<times> store" where
  "create_vector_db w fs doc_id doc_content doc_metadata chunk_size chunk_overlap =
     (if io_fault w = Some Makedirs then (False, fs) else
      let d0 = (case fs doc_id of None \<Rightarrow> empty_dir | Some d \<Rightarrow> d);
          doc_summary = summary_text w
      in
      if io_fault w = Some OpenMetadata then (False, fs(doc_id \<mapsto> d0)) else
      if io_fault w = Some DumpMetadata
      then (False, fs(doc_id \<mapsto> d0\<lparr>metadata_json := Some Corrupt\<rparr>)) else
      let d1 = d0\<lparr>metadata_json := Some (Content
                   \<lparr>original_metadata = doc_metadata,
                    vector_db_created_at = now w,
                    md_chunk_size = chunk_size,
                    md_chunk_overlap = chunk_overlap,
                    md_document_summary = doc_summary\<rparr>)\<rparr>;
          chunks = split_text (uuid4 w) doc_content chunk_size chunk_overlap
      in
      if io_fault w = Some OpenChunks then (False, fs(doc_id \<mapsto> d1)) else
      if io_fault w = Some DumpChunks
      then (False, fs(doc_id \<mapsto> d1\<lparr>chunks_json := Some Corrupt\<rparr>)) else
      let d2 = d1\<lparr>chunks_json := Some (Content chunks)\<rparr>;
          vectors = generate_vectors w chunks
      in
      if io_fault w = Some OpenVectors then (False, fs(doc_id \<mapsto> d2)) else
      if io_fault w = Some DumpVectors
      then (False, fs(doc_id \<mapsto> d2\<lparr>vectors_json := Some Corrupt\<rparr>)) else
      (True, fs(doc_id \<mapsto> d2\<lparr>vectors_json := Some (Content vectors)\<rparr>)))"

text \<open>
  \<open>get_vector_db_status\<close>. Without the directory the result is \<open>{"exists": False}\<close> and
  nothing else. \<open>None\<close> in \<open>created_at\<close> and \<open>document_summary\<close> stands for the default
  literal of the source (the words for "unknown" and "no summary").
\<close>

record status_details =
  chunks_exist :: bool
  vectors_exist :: bool
  chunks_count :: nat
  created_at :: "string option"
  st_chunk_size :: int
  st_chunk_overlap :: int
  document_summary :: "string option"

record status =
  exists_flag :: bool
  details :: "status_details option"

definition get_vector_db_status :: "store \<Rightarrow> string \<Rightarrow> status" where
  "get_vector_db_status fs doc_id =
     (case fs doc_id of
        None \<Rightarrow> \<lparr>exists_flag = False, details = None\<rparr>
      | Some d \<Rightarrow>
          let chunks_exist = (chunks_json d \<noteq> None);
              vectors_exist = (vectors_json d \<noteq> None);
              chunks_count = (case json_load (chunks_json d) of
                                Inl e \<Rightarrow> 0 | Inr chunks \<Rightarrow> length chunks);
              metadata = (case json_load (metadata_json d) of
                            Inl e \<Rightarrow> None | Inr m \<Rightarrow> Some m)
          in \<lparr>exists_flag = (chunks_exist \<and> vectors_exist),
              details = Some
                \<lparr>chunks_exist = chunks_exist,
                 vectors_exist = vectors_exist,
                 chunks_count = chunks_count,
                 created_at = map_option vector_db_created_at metadata,
                 st_chunk_size = (case metadata of None \<Rightarrow> 0 | Some m \<Rightarrow> md_chunk_size m),
                 st_chunk_overlap = (case metadata of None \<Rightarrow> 0 | Some m \<Rightarrow> md_chunk_overlap m),
                 document_summary = map_option md_document_summary metadata\<rparr>\<rparr>)"

section \<open>The similarity search engine\<close>

text \<open>A search result \<open>{"text": ..., "score": ..., "metadata": ...}\<close>. The search engine
  stores a float under \<open>"score"\<close>, the reranker whatever the provider sent.\<close>

record 's scored =
  res_text :: string
  res_score :: 's
  res_index :: nat

text \<open>
  The machine the search runs on: the arithmetic of Python numbers (\<open>a * b\<close>, the
  builtin \<open>sum\<close>, \<open>x ** 0.5\<close> and \<open>a / b\<close>, each returning its value or raising, for
  instance OverflowError on an integer too large for a float), and the order in which
  \<open>list.sort\<close> leaves a list that has a NaN among its keys, which depends on the
  sorting algorithm. Nothing is assumed of them.
\<close>

record machine =
  num_mul :: "pynum \<Rightarrow> pynum \<Rightarrow> exn + pynum"
  num_sum :: "pynum list \<Rightarrow> exn + pynum"
  num_pow_half :: "pynum \<Rightarrow> exn + pynum"
  num_div :: "pynum \<Rightarrow> pynum \<Rightarrow> exn + pyfloat"
  sort_with_nan :: "pyfloat scored list \<Rightarrow> pyfloat scored list"

text \<open>Applying an operation that may raise to every element, up to the first
  exception.\<close>

fun try_map :: "('a \<Rightarrow> exn + 'b) \<Rightarrow> 'a list \<Rightarrow> exn + 'b list" where
  "try_map f [] = Inr []"
| "try_map f (x # xs) =
     (case f x of
        Inl e \<Rightarrow> Inl e
      | Inr y \<Rightarrow> (case try_map f xs of Inl e \<Rightarrow> Inl e | Inr ys \<Rightarrow> Inr (y # ys)))"

text \<open>\<open>sum(a * b for a, b in zip(vec1, vec2))\<close>. It raises when a product or the sum
  raises (which of the two exceptions comes first is not told apart).\<close>

definition sum_of_products :: "machine \<Rightarrow> pynum list \<Rightarrow> pynum list \<Rightarrow> exn + pynum" where
  "sum_of_products m vec1 vec2 =
     (case try_map (\<lambda>(a, b). num_mul m a b) (zip vec1 vec2) of
        Inl e \<Rightarrow> Inl e
      | Inr products \<Rightarrow> num_sum m products)"

text \<open>\<open>sum(a * a for a in vec) ** 0.5\<close>\<close>

definition magnitude :: "machine \<Rightarrow> pynum list \<Rightarrow> exn + pynum" where
  "magnitude m vec =
     (case sum_of_products m vec vec of
        Inl e \<Rightarrow> Inl e
      | Inr s \<Rightarrow> num_pow_half m s)"

text \<open>\<open>_cosine_similarity(vec1, vec2)\<close> on two lists of numbers.\<close>

definition cosine_similarity :: "machine \<Rightarrow> pynum list \<Rightarrow> pynum list \<Rightarrow> exn + pyfloat" where
  "cosine_similarity m vec1 vec2 =
     (if length vec1 \<noteq> length vec2 then Inr (Finite 0) else
      case sum_of_products m vec1 vec2 of
        Inl e \<Rightarrow> Inl e
      | Inr dot_product \<Rightarrow>
          (case magnitude m vec1 of
             Inl e \<Rightarrow> Inl e
           | Inr magnitude1 \<Rightarrow>
               (case magnitude m vec2 of
                  Inl e \<Rightarrow> Inl e
                | Inr magnitude2 \<Rightarrow>
                    (case num_mul m magnitude1 magnitude2 of
                       Inl e \<Rightarrow> Inl e
                     | Inr magnitudes \<Rightarrow>
                         if num_is_zero magnitudes then Inr (Finite 0)
                         else num_div m dot_product magnitudes))))"

text \<open>
  The vectors reach \<open>_cosine_similarity\<close> as JSON values of equal, non-zero \<open>len\<close>.
  Its sums iterate over them and multiply the elements, so a value that is not a list
  of numbers makes a product or the sum starting at \<open>0\<close> raise TypeError.
\<close>

definition py_numbers :: "json \<Rightarrow> exn + pynum list" where
  "py_numbers v =
     (case v of
        JList xs \<Rightarrow> (case those (map py_number xs) of
                       None \<Rightarrow> Inl TypeError
                     | Some a \<Rightarrow> Inr a)
      | _ \<Rightarrow> Inl TypeError)"

definition cosine_similarity_json :: "machine \<Rightarrow> json \<Rightarrow> json \<Rightarrow> exn + pyfloat" where
  "cosine_similarity_json m vec1 vec2 =
     (case py_numbers vec1 of
        Inl e \<Rightarrow> Inl e
      | Inr a \<Rightarrow> (case py_numbers vec2 of
                    Inl e \<Rightarrow> Inl e
                  | Inr b \<Rightarrow> cosine_similarity m a b))"

text \<open>
  \<open>results.sort(key=lambda x: x["score"], reverse=True)\<close>. When no score is NaN the
  scores are totally ordered and the sort is the stable descending one (equal scores
  keep their order), computed here by insertion. With a NaN among the scores the
  comparisons are inconsistent and the resulting order is the machine's.
\<close>

fun insort_desc :: "pyfloat scored \<Rightarrow> pyfloat scored list \<Rightarrow> pyfloat scored list" where
  "insort_desc x [] = [x]"
| "insort_desc x (y # ys) =
     (if fl_lt (res_score x) (res_score y) then y # insort_desc x ys else x # y # ys)"

definition stable_sort_desc :: "pyfloat scored list \<Rightarrow> pyfloat scored list" where
  "stable_sort_desc results = foldr insort_desc results []"

definition sort_by_score :: "machine \<Rightarrow> pyfloat scored list \<Rightarrow> pyfloat scored list" where
  "sort_by_score m results =
     (if list_all (\<lambda>x. res_score x \<noteq> NaN) results then stable_sort_desc results
      else sort_with_nan m results)"

text \<open>The score of a keyword match: the double that the literal \<open>0.8\<close> denotes.\<close>

definition nominal_score :: pyfloat where
  "nominal_score = Finite (3602879701896397 / 4503599627370496)"

text \<open>\<open>_fallback_keyword_search(chunks, query, top_k)\<close>\<close>

definition fallback_keyword_search ::
  "machine \<Rightarrow> chunk list \<Rightarrow> string \<Rightarrow> int \<Rightarrow> pyfloat scored list" where
  "fallback_keyword_search m chunks query top_k =
     (let results =
            map (\<lambda>chunk. \<lparr>res_text = chunk_text chunk, res_score = nominal_score,
                           res_index = chunk_index chunk\<rparr>)
                (filter (\<lambda>chunk. py_in_str (py_lower query) (py_lower (chunk_text chunk))) chunks)
      in py_slice_to (sort_by_score m results) top_k)"

text \<open>The \<open>try\<close> block of \<open>_generate_query_vector\<close> after \<open>response.json()\<close>.\<close>

definition query_vector_of_reply :: "json \<Rightarrow> exn + json" where
  "query_vector_of_reply response_data =
     (case py_contains_str ''data'' response_data of
        Inl e \<Rightarrow> Inl e
      | Inr False \<Rightarrow> Inr (JList [])
      | Inr True \<Rightarrow>
          (case py_getitem_str response_data ''data'' of
             Inl e \<Rightarrow> Inl e
           | Inr d \<Rightarrow>
               (case py_len d of
                  Inl e \<Rightarrow> Inl e
                | Inr n \<Rightarrow>
                    if n > 0 then
                      (case py_getitem_0 d of
                         Inl e \<Rightarrow> Inl e
                       | Inr first \<Rightarrow> py_getitem_str first ''embedding'')
                    else Inr (JList []))))"

text \<open>\<open>_generate_query_vector(query)\<close>: the empty list without a key and on every
  exception.\<close>

definition generate_query_vector :: "world \<Rightarrow> string \<Rightarrow> json" where
  "generate_query_vector w query =
     (if no_key w then JList [] else
      case query_reply w of
        None \<Rightarrow> JList []
      | Some response_data \<Rightarrow>
          (case query_vector_of_reply response_data of
             Inl e \<Rightarrow> JList []
           | Inr v \<Rightarrow> v))"

text \<open>The loop \<open>for i, vector in enumerate(vectors)\<close> of \<open>search_vector_db\<close>; \<open>qn\<close> is
  \<open>len(query_vector)\<close>.\<close>

fun similarity_loop ::
  "machine \<Rightarrow> chunk list \<Rightarrow> json \<Rightarrow> nat \<Rightarrow> nat \<Rightarrow> vector_entry list
     \<Rightarrow> exn + pyfloat scored list" where
  "similarity_loop m chunks query_vector qn i [] = Inr []"
| "similarity_loop m chunks query_vector qn i (vector # rest) =
     (if i < length chunks then
        (case py_len (vec_vector vector) of
           Inl e \<Rightarrow> Inl e
         | Inr n \<Rightarrow>
             if n \<noteq> qn then similarity_loop m chunks query_vector qn (Suc i) rest
             else
               (case cosine_similarity_json m query_vector (vec_vector vector) of
                  Inl e \<Rightarrow> Inl e
                | Inr similarity \<Rightarrow>
                    (case similarity_loop m chunks query_vector qn (Suc i) rest of
                       Inl e \<Rightarrow> Inl e
                     | Inr results \<Rightarrow>
                         Inr (\<lparr>res_text = chunk_text (chunks ! i), res_score = similarity,
                               res_index = chunk_index (chunks ! i)\<rparr> # results))))
      else similarity_loop m chunks query_vector qn (Suc i) rest)"

text \<open>The \<open>try\<close> block of \<open>search_vector_db\<close>: its result, or the exception it raises.\<close>

definition vector_search ::
  "machine \<Rightarrow> world \<Rightarrow> collection_dir \<Rightarrow> string \<Rightarrow> int \<Rightarrow> exn + pyfloat scored list" where
  "vector_search m w d query top_k =
     (case json_load (chunks_json d) of
        Inl e \<Rightarrow> Inl e
      | Inr chunks \<Rightarrow>
          (case json_load (vectors_json d) of
             Inl e \<Rightarrow> Inl e
           | Inr vectors \<Rightarrow>
               let query_vector = generate_query_vector w query in
               if \<not> py_truthy query_vector
               then Inr (fallback_keyword_search m chunks query top_k)
               else
                 (case py_len query_vector of
                    Inl e \<Rightarrow> Inl e
                  | Inr qn \<Rightarrow>
                      if qn = 0 then Inr (fallback_keyword_search m chunks query top_k)
                      else
                        (case similarity_loop m chunks query_vector qn 0 vectors of
                           Inl e \<Rightarrow> Inl e
                         | Inr results \<Rightarrow> Inr (py_slice_to (sort_by_score m results) top_k)))))"

text \<open>The handler of \<open>search_vector_db\<close>: its own \<open>try\<close> block reads the chunks again and
  runs the keyword search.\<close>

definition keyword_retry ::
  "machine \<Rightarrow> collection_dir \<Rightarrow> string \<Rightarrow> int \<Rightarrow> exn + pyfloat scored list" where
  "keyword_retry m d query top_k =
     (case json_load (chunks_json d) of
        Inl e2 \<Rightarrow> Inl e2
      | Inr chunks \<Rightarrow> Inr (fallback_keyword_search m chunks query top_k))"

text \<open>\<open>search_vector_db(doc_id, query, top_k)\<close>: the two existence checks, the \<open>try\<close>
  block, and the handler, which returns the empty list when its keyword search raises
  too.\<close>

definition search_vector_db ::
  "machine \<Rightarrow> world \<Rightarrow> store \<Rightarrow> string \<Rightarrow> string \<Rightarrow> int \<Rightarrow> pyfloat scored list" where
  "search_vector_db m w fs doc_id query top_k =
     (case fs doc_id of
        None \<Rightarrow> []
      | Some d \<Rightarrow>
          if chunks_json d = None \<or> vectors_json d = None then []
          else
            (case vector_search m w d query top_k of
               Inr results \<Rightarrow> results
             | Inl e \<Rightarrow>
                 (case keyword_retry m d query top_k of
                    Inl e2 \<Rightarrow> []
                  | Inr results \<Rightarrow> results)))"

subsection \<open>Notions used to state the search engine's properties\<close>

text \<open>Descending order of scores: every score is \<open>>=\<close> the ones after it.\<close>

definition sorted_desc :: "pyfloat scored list \<Rightarrow> bool" where
  "sorted_desc results = sorted_wrt (\<lambda>x y. fl_le (res_score y) (res_score x)) results"

text \<open>The similarities the loop of \<open>search_vector_db\<close> has computed when it reaches
  \<open>results.sort\<close> (none when the call does not get there).\<close>

definition similarities :: "machine \<Rightarrow> world \<Rightarrow> store \<Rightarrow> string \<Rightarrow> string \<Rightarrow> pyfloat list" where
  "similarities m w fs doc_id query =
     (case fs doc_id of
        None \<Rightarrow> []
      | Some d \<Rightarrow>
          (case json_load (chunks_json d) of
             Inl e \<Rightarrow> []
           | Inr chunks \<Rightarrow>
               (case json_load (vectors_json d) of
                  Inl e \<Rightarrow> []
                | Inr vectors \<Rightarrow>
                    let query_vector = generate_query_vector w query in
                    if \<not> py_truthy query_vector then []
                    else
                      (case py_len query_vector of
                         Inl e \<Rightarrow> []
                       | Inr qn \<Rightarrow>
                           if qn = 0 then []
                           else
                             (case similarity_loop m chunks query_vector qn 0 vectors of
                                Inl e \<Rightarrow> []
                              | Inr results \<Rightarrow> map res_score results)))))"

text \<open>
  The keyword search in the words of its specification. Two strings are the same
  ignoring case when they agree character by character after lowering; a query occurs
  in a text ignoring case when some contiguous piece of the text is the same as the
  query ignoring case. A match carries the chunk's text and index and the fixed score.
\<close>

definition same_ignoring_case :: "string \<Rightarrow> string \<Rightarrow> bool" where
  "same_ignoring_case a b = (map lower_char a = map lower_char b)"

definition occurs_ignoring_case :: "string \<Rightarrow> string \<Rightarrow> bool" where
  "occurs_ignoring_case query txt =
     (\<exists>before piece after. txt = before @ piece @ after \<and> same_ignoring_case piece query)"

definition keyword_match :: "chunk \<Rightarrow> pyfloat scored" where
  "keyword_match c =
     \<lparr>res_text = chunk_text c, res_score = nominal_score, res_index = chunk_index c\<rparr>"

definition keyword_matches :: "chunk list \<Rightarrow> string \<Rightarrow> pyfloat scored list" where
  "keyword_matches chunks query =
     map keyword_match (filter (\<lambda>c. occurs_ignoring_case query (chunk_text c)) chunks)"

section \<open>The reranker adapter: \<open>rerank_results\<close>\<close>

text \<open>\<open>0 <= idx < len(documents)\<close>: numbers compare, anything else raises.\<close>

fun index_in_range :: "json \<Rightarrow> nat \<Rightarrow> exn + bool" where
  "index_in_range (JInt i) n = Inr (0 \<le> i \<and> i < int n)"
| "index_in_range (JBool b) n = Inr ((if b then 1 else 0) < n)"
| "index_in_range (JFloat r) n = Inr (fl_le (Finite 0) r \<and> fl_lt r (Finite (real n)))"
| "index_in_range _ n = Inl TypeError"

text \<open>\<open>documents[idx]\<close> for an index already found in range: a float is no index.\<close>

fun document_at :: "'a list \<Rightarrow> json \<Rightarrow> exn + 'a" where
  "document_at documents (JInt i) = Inr (documents ! nat i)"
| "document_at documents (JBool b) = Inr (documents ! (if b then 1 else 0))"
| "document_at documents _ = Inl TypeError"

text \<open>The loop \<open>for result in response_data["results"]\<close>.\<close>

fun rerank_loop :: "json scored list \<Rightarrow> json list \<Rightarrow> exn + json scored list" where
  "rerank_loop documents [] = Inr []"
| "rerank_loop documents (result # rest) =
     (case py_get result ''index'' (JInt (- 1)) of
        Inl e \<Rightarrow> Inl e
      | Inr idx \<Rightarrow>
          (case index_in_range idx (length documents) of
             Inl e \<Rightarrow> Inl e
           | Inr False \<Rightarrow> rerank_loop documents rest
           | Inr True \<Rightarrow>
               (case document_at documents idx of
                  Inl e \<Rightarrow> Inl e
                | Inr doc \<Rightarrow>
                    (case py_get result ''relevance_score'' (res_score doc) of
                       Inl e \<Rightarrow> Inl e
                     | Inr s \<Rightarrow>
                         (case rerank_loop documents rest of
                            Inl e \<Rightarrow> Inl e
                          | Inr reranked_docs \<Rightarrow> Inr (doc\<lparr>res_score := s\<rparr> # reranked_docs))))))"

text \<open>The \<open>try\<close> block of \<open>rerank_results\<close>.\<close>

definition rerank_try :: "world \<Rightarrow> json scored list \<Rightarrow> int \<Rightarrow> exn + json scored list" where
  "rerank_try w documents top_k =
     (case rerank_reply w of
        None \<Rightarrow> Inl RequestException
      | Some response_data \<Rightarrow>
          (case py_contains_str ''results'' response_data of
             Inl e \<Rightarrow> Inl e
           | Inr False \<Rightarrow> Inr (py_slice_to documents top_k)
           | Inr True \<Rightarrow>
               (case py_getitem_str response_data ''results'' of
                  Inl e \<Rightarrow> Inl e
                | Inr rs \<Rightarrow>
                    (case py_iter rs of
                       Inl e \<Rightarrow> Inl e
                     | Inr results \<Rightarrow> rerank_loop documents results))))"

text \<open>\<open>rerank_results(query, documents, top_k)\<close>\<close>

definition rerank_results :: "world \<Rightarrow> string \<Rightarrow> json scored list \<Rightarrow> int \<Rightarrow> json scored list" where
  "rerank_results w query documents top_k =
     (if no_key w then py_slice_to documents top_k
      else
        (case rerank_try w documents top_k of
           Inr reranked_docs \<Rightarrow> reranked_docs
         | Inl e \<Rightarrow> py_slice_to documents top_k))"

section \<open>Concrete runs\<close>

text \<open>A world without key, replies or faults.\<close>

definition quiet_world :: world where
  "quiet_world =
     \<lparr>api_key = None, uuid4 = (\<lambda>k. ''id''), embeddings_reply = (\<lambda>i. None),
      query_reply = None, rerank_reply = None, summary_text = [], now = [],
      io_fault = None\<rparr>"

text \<open>The same world with the key set; every request then fails unless a reply is given.\<close>

definition keyed_world :: world where
  "keyed_world = quiet_world\<lparr>api_key := Some ''key''\<rparr>"

text \<open>The provider answers every embeddings request with \<open>{"data": []}\<close>.\<close>

definition short_embeddings_world :: world where
  "short_embeddings_world =
     keyed_world\<lparr>embeddings_reply := (\<lambda>i. Some (JDict [(''data'', JList [])]))\<rparr>"

text \<open>The provider answers the rerank request with two results, both with a valid
  index.\<close>

definition long_rerank_world :: world where
  "long_rerank_world =
     keyed_world\<lparr>rerank_reply := Some (JDict [(''results'',
        JList [JDict [(''index'', JInt 1), (''relevance_score'', JFloat (Finite 0.75))],
               JDict [(''index'', JInt 0), (''relevance_score'', JFloat (Finite 0.125))]])])\<rparr>"

text \<open>Opening \<open>metadata.json\<close> for writing fails; opening \<open>vectors.json\<close> fails.\<close>

definition metadata_fault_world :: world where
  "metadata_fault_world = quiet_world\<lparr>io_fault := Some OpenMetadata\<rparr>"

definition vectors_fault_world :: world where
  "vectors_fault_world = quiet_world\<lparr>io_fault := Some OpenVectors\<rparr>"

definition example_chunks :: "chunk list" where
  "example_chunks =
     [\<lparr>chunk_id = ''a'', chunk_text = ''Alpha beta'', chunk_index = 0\<rparr>,
      \<lparr>chunk_id = ''b'', chunk_text = ''gamma ALPHA'', chunk_index = 1\<rparr>]"

definition example_dir :: collection_dir where
  "example_dir =
     \<lparr>metadata_json = None,
      chunks_json = Some (Content example_chunks),
      vectors_json = Some (Content (placeholders example_chunks))\<rparr>"

text \<open>No collection at all; a complete collection for document \<open>d\<close>; the same
  collection with an unreadable vectors file.\<close>

definition empty_store :: store where
  "empty_store = Map.empty"

definition example_store :: store where
  "example_store = Map.empty(''d'' \<mapsto> example_dir)"

definition damaged_store :: store where
  "damaged_store = Map.empty(''d'' \<mapsto> example_dir\<lparr>vectors_json := Some Corrupt\<rparr>)"

definition example_documents :: "json scored list" where
  "example_documents =
     [\<lparr>res_text = ''x'', res_score = JFloat (Finite 0.5), res_index = 0\<rparr>,
      \<lparr>res_text = ''y'', res_score = JFloat (Finite 0.25), res_index = 1\<rparr>]"

text \<open>
  A machine for concrete runs: it computes exactly on finite numbers (integers stay
  integers under \<open>*\<close> and \<open>sum\<close>), raises on an infinity and on NaN, and leaves a list
  with a NaN score as it is. The runs below give it only the floats 0.0 and 1.0, on
  which doubles compute exactly as well.
\<close>

fun finite_value :: "pynum \<Rightarrow> real option" where
  "finite_value (PInt n) = Some (of_int n)"
| "finite_value (PFloat (Finite x)) = Some x"
| "finite_value (PFloat _) = None"

fun int_value :: "pynum \<Rightarrow> int option" where
  "int_value (PInt n) = Some n"
| "int_value (PFloat _) = None"

definition exact_machine :: machine where
  "exact_machine =
     \<lparr>num_mul = (\<lambda>a b. case (int_value a, int_value b) of
                    (Some i, Some j) \<Rightarrow> Inr (PInt (i * j))
                  | _ \<Rightarrow>
                    (case (finite_value a, finite_value b) of
                       (Some x, Some y) \<Rightarrow> Inr (PFloat (Finite (x * y)))
                     | _ \<Rightarrow> Inl OverflowError)),
      num_sum = (\<lambda>xs. case those (map int_value xs) of
                    Some ns \<Rightarrow> Inr (PInt (sum_list ns))
                  | None \<Rightarrow>
                    (case those (map finite_value xs) of
                       Some rs \<Rightarrow> Inr (PFloat (Finite (sum_list rs)))
                     | None \<Rightarrow> Inl OverflowError)),
      num_pow_half = (\<lambda>a. case finite_value a of
                    Some x \<Rightarrow> Inr (PFloat (Finite (sqrt x)))
                  | None \<Rightarrow> Inl OverflowError),
      num_div = (\<lambda>a b. case (finite_value a, finite_value b) of
                    (Some x, Some y) \<Rightarrow> Inr (Finite (x / y))
                  | _ \<Rightarrow> Inl OverflowError),
      sort_with_nan = (\<lambda>results. results)\<rparr>"

text \<open>The provider answers the query-embedding request with the vector \<open>[0.0, 1.0]\<close>.\<close>

definition query_axis_world :: world where
  "query_axis_world =
     keyed_world\<lparr>query_reply := Some (JDict [(''data'',
        JList [JDict [(''embedding'', JList [JFloat (Finite 0), JFloat (Finite 1)])]])])\<rparr>"

text \<open>A collection whose two chunks have the vectors \<open>[1.0, 0.0]\<close> and \<open>[0.0, 1.0]\<close>.\<close>

definition axes_vectors :: "vector_entry list" where
  "axes_vectors =
     [\<lparr>vec_id = ''a'', vec_vector = JList [JFloat (Finite 1), JFloat (Finite 0)], vec_index = 0\<rparr>,
      \<lparr>vec_id = ''b'', vec_vector = JList [JFloat (Finite 0), JFloat (Finite 1)], vec_index = 1\<rparr>]"

definition axes_store :: store where
  "axes_store =
     Map.empty(''d'' \<mapsto>
       \<lparr>metadata_json = None,
        chunks_json = Some (Content example_chunks),
        vectors_json = Some (Content axes_vectors)\<rparr>)"

section \<open>Chunk ordinals\<close>

lemma indexed_append_chunk: "indexed chunks \<Longrightarrow> indexed (append_chunk uuid chunks cur)"
  by (simp add: indexed_def append_chunk_def)

lemma indexed_save_current: "indexed chunks \<Longrightarrow> indexed (save_current uuid chunks cur)"
  by (simp add: save_current_def indexed_append_chunk)

lemma indexed_sentence_loop:
  "indexed (fst st) \<Longrightarrow> indexed (fst (sentence_loop uuid n ss st))"
proof (induction ss arbitrary: st)
  case Nil
  then show ?case by simp
next
  case (Cons s ss)
  obtain chunks cur sz where st: "st = (chunks, cur, sz)"
    by (cases st) auto
  with Cons.prems have "indexed chunks" by simp
  then show ?case
    unfolding st by (auto simp: Let_def intro!: Cons.IH indexed_save_current)
qed

lemma indexed_paragraph_loop:
  "indexed (fst st) \<Longrightarrow> indexed (fst (paragraph_loop uuid n ps st))"
proof (induction ps arbitrary: st)
  case Nil
  then show ?case by simp
next
  case (Cons p ps)
  obtain chunks cur sz where st: "st = (chunks, cur, sz)"
    by (cases st) auto
  with Cons.prems have ix: "indexed chunks" by simp
  then have "indexed (fst (sentence_loop uuid n (py_split sent_sep (py_strip p)) (chunks, cur, sz)))"
    by (simp add: indexed_sentence_loop)
  with ix show ?case
    unfolding st by (auto simp: Let_def intro!: Cons.IH indexed_save_current)
qed

text \<open>
  C9. For every text, chunk size and overlap, the chunk at position \<open>i\<close> of the result of
  \<open>_split_text\<close> has metadata index \<open>i\<close>: the indices are exactly \<open>0, ..., n - 1\<close>.
\<close>

theorem split_text_index_is_position:
  "map chunk_index (split_text uuid text chunk_size chunk_overlap)
     = [0..<length (split_text uuid text chunk_size chunk_overlap)]"
proof -
  have "indexed (fst (paragraph_loop uuid chunk_size (py_split para_sep text) ([], [], 0)))"
    by (rule indexed_paragraph_loop) (simp add: indexed_def)
  then have "indexed (split_text uuid text chunk_size chunk_overlap)"
    by (auto simp: split_text_def split: prod.splits intro: indexed_save_current)
  then show ?thesis
    by (simp add: indexed_def)
qed


section \<open>Splitting and stripping\<close>

lemma py_split_not_Nil: "py_split sep s \<noteq> []"
  by (induction sep s rule: py_split.induct) (auto split: list.splits)

lemma py_split_lengths:
  "sep \<noteq> [] \<Longrightarrow> (\<Sum>p\<leftarrow>py_split sep s. int (length p) + int (length sep)) = int (length s) + int (length sep)"
proof (induction sep s rule: py_split.induct)
  case (1 sep)
  then show ?case by simp
next
  case (2 sep c cs)
  show ?case
  proof (cases "prefix sep (c # cs)")
    case True
    then have "length sep \<le> length (c # cs)" by (rule prefix_length_le)
    with True 2 show ?thesis by (simp del: prefix_code)
  next
    case False
    with 2 py_split_not_Nil[of sep cs] show ?thesis
      by (cases "py_split sep cs") auto
  qed
qed

lemma py_split_chars: "set s \<subseteq> (\<Union>p\<in>set (py_split sep s). set p) \<union> set sep"
proof (induction sep s rule: py_split.induct)
  case (1 sep)
  then show ?case by simp
next
  case (2 sep c cs)
  show ?case
  proof (cases "sep \<noteq> [] \<and> prefix sep (c # cs)")
    case True
    then obtain r where r: "c # cs = sep @ r" by (auto simp: prefix_def)
    then have "drop (length sep) (c # cs) = r" by (metis append_eq_conv_conj)
    with 2(1) True have "set r \<subseteq> (\<Union>p\<in>set (py_split sep r). set p) \<union> set sep" by simp
    moreover have "set (c # cs) = set sep \<union> set r" using r by (metis set_append)
    ultimately show ?thesis using True \<open>drop (length sep) (c # cs) = r\<close> by auto
  next
    case False
    with 2(2) py_split_not_Nil[of sep cs] show ?thesis
      by (cases "py_split sep cs") auto
  qed
qed

lemma length_py_strip: "length (py_strip s) \<le> length s"
proof -
  have "length (py_strip s) \<le> length (dropWhile is_space s)"
    using length_dropWhile_le[of is_space "rev (dropWhile is_space s)"] by (simp add: py_strip_def)
  also have "\<dots> \<le> length s" by (rule length_dropWhile_le)
  finally show ?thesis .
qed

lemma dropWhile_all_iff: "(\<forall>c\<in>set (dropWhile P s). P c) \<longleftrightarrow> (\<forall>c\<in>set s. P c)"
  by (induction s) auto

lemma py_strip_Nil_iff: "py_strip s = [] \<longleftrightarrow> (\<forall>c\<in>set s. is_space c)"
proof -
  have "py_strip s = [] \<longleftrightarrow> (\<forall>c\<in>set (dropWhile is_space s). is_space c)"
    by (simp add: py_strip_def)
  then show ?thesis by (simp only: dropWhile_all_iff)
qed

lemma last_dropWhile: "xs \<noteq> [] \<Longrightarrow> \<not> P (last xs) \<Longrightarrow> dropWhile P xs \<noteq> [] \<and> last (dropWhile P xs) = last xs"
  by (induction xs) (auto split: if_splits)

lemma hd_py_strip: "py_strip s \<noteq> [] \<Longrightarrow> \<not> is_space (hd (py_strip s))"
proof -
  assume ne: "py_strip s \<noteq> []"
  define t where "t = dropWhile is_space s"
  from ne have t: "t \<noteq> []" by (simp add: t_def py_strip_Nil_iff)
  then have h: "\<not> is_space (hd t)" unfolding t_def by (rule hd_dropWhile)
  with t have l: "\<not> is_space (last (rev t))" by (simp add: last_rev)
  from t have "rev t \<noteq> []" by simp
  from last_dropWhile[of "rev t" is_space, OF this l]
  have "dropWhile is_space (rev t) \<noteq> []" "last (dropWhile is_space (rev t)) = hd t"
    using t by (simp_all add: last_rev)
  then have "hd (py_strip s) = hd t"
    by (simp add: py_strip_def t_def[symmetric] hd_rev)
  with h show ?thesis by simp
qed

lemma py_strip_sentence: "d \<noteq> [] \<Longrightarrow> \<not> is_space (hd d) \<Longrightarrow> py_strip (d @ ''. '') = d @ ''.''"
  by (cases d) (simp_all add: py_strip_def is_space_def)

section \<open>The chunker with a chunk size that is not positive\<close>

lemma map_text_save_current:
  "map chunk_text (save_current uuid chunks cur) = flush_texts (chunks, cur, sz)"
  by (simp add: save_current_def append_chunk_def flush_texts_def)

lemma sentence_loop_nonpositive:
  "n \<le> 0 \<Longrightarrow> 0 \<le> sz \<Longrightarrow>
     0 \<le> snd (snd (sentence_loop uuid n ss (chunks, cur, sz))) \<and>
     flush_texts (sentence_loop uuid n ss (chunks, cur, sz))
       = flush_texts (chunks, cur, sz) @ map (\<lambda>s. s @ ''.'') (stripped_nonempty ss)"
proof (induction ss arbitrary: chunks cur sz)
  case Nil
  then show ?case by (simp add: stripped_nonempty_def)
next
  case (Cons s ss)
  show ?case
  proof (cases "py_strip s = []")
    case True
    with Cons show ?thesis by (simp add: stripped_nonempty_def)
  next
    case False
    then have h: "\<not> is_space (hd (py_strip s))" by (rule hd_py_strip)
    from False have "0 < length (py_strip s)" by simp
    with Cons.prems have gt: "\<not> sz + int (length (py_strip s)) \<le> n" by linarith
    have "flush_texts (save_current uuid chunks cur, py_strip s @ ''. '', int (length (py_strip s)) + 2)
            = flush_texts (chunks, cur, sz) @ [py_strip s @ ''.'']"
      using py_strip_sentence[OF False h]
      by (simp add: flush_texts_def save_current_def append_chunk_def)
    with Cons.IH[of "int (length (py_strip s)) + 2" "save_current uuid chunks cur" "py_strip s @ ''. ''"]
      Cons.prems False gt
    show ?thesis by (simp add: stripped_nonempty_def Let_def)
  qed
qed

lemma paragraph_loop_nonpositive:
  "n \<le> 0 \<Longrightarrow> 0 \<le> sz \<Longrightarrow>
     flush_texts (paragraph_loop uuid n ps (chunks, cur, sz))
       = flush_texts (chunks, cur, sz) @
         map (\<lambda>s. s @ ''.'')
           (concat (map (\<lambda>paragraph. stripped_nonempty (py_split sent_sep paragraph))
                        (stripped_nonempty ps)))"
proof (induction ps arbitrary: chunks cur sz)
  case Nil
  then show ?case by (simp add: stripped_nonempty_def)
next
  case (Cons p ps)
  show ?case
  proof (cases "py_strip p = []")
    case True
    with Cons show ?thesis by (simp add: stripped_nonempty_def)
  next
    case False
    then have "0 < length (py_strip p)" by simp
    with Cons.prems have long: "int (length (py_strip p)) > n" by linarith
    obtain chunks' cur' sz' where
      st: "sentence_loop uuid n (py_split sent_sep (py_strip p)) (chunks, cur, sz) = (chunks', cur', sz')"
      by (cases "sentence_loop uuid n (py_split sent_sep (py_strip p)) (chunks, cur, sz)") auto
    from sentence_loop_nonpositive[OF Cons.prems, of uuid "py_split sent_sep (py_strip p)" chunks cur]
    have sz': "0 \<le> sz'"
      and fl: "flush_texts (chunks', cur', sz') = flush_texts (chunks, cur, sz) @
                 map (\<lambda>s. s @ ''.'') (stripped_nonempty (py_split sent_sep (py_strip p)))"
      by (simp_all add: st)
    from Cons.IH[OF Cons.prems(1) sz', of chunks' cur'] fl False long st
    show ?thesis by (simp add: stripped_nonempty_def Let_def)
  qed
qed

text \<open>
  C5 (as the code has it). With \<open>chunk_size <= 0\<close> the chunker raises nothing and
  checks nothing: it returns one chunk for every non-blank sentence of every non-blank
  paragraph, in order, the chunk's text being the sentence followed by a full stop.
\<close>

theorem split_text_nonpositive_size:
  "chunk_size \<le> 0 \<Longrightarrow>
     map chunk_text (split_text uuid text chunk_size chunk_overlap)
       = map (\<lambda>s. s @ ''.'') (sentences_of text)"
proof -
  assume n: "chunk_size \<le> 0"
  obtain chunks cur sz where
    st: "paragraph_loop uuid chunk_size (py_split para_sep text) ([], [], 0) = (chunks, cur, sz)"
    by (cases "paragraph_loop uuid chunk_size (py_split para_sep text) ([], [], 0)") auto
  have "map chunk_text (split_text uuid text chunk_size chunk_overlap) = flush_texts (chunks, cur, sz)"
    by (simp add: split_text_def st map_text_save_current)
  also have "\<dots> = flush_texts ([], [], 0) @ map (\<lambda>s. s @ ''.'') (sentences_of text)"
    using paragraph_loop_nonpositive[OF n, of 0 uuid "py_split para_sep text" "[]" "[]"]
    by (simp add: st sentences_of_def)
  finally show ?thesis by (simp add: flush_texts_def)
qed


theorem split_text_nonpositive_size_witness:
  "(0::int) \<le> 0 \<and>
   map chunk_text (split_text (uuid4 quiet_world) ''ab. cd'' 0 100) = [''ab.'', ''cd.'']"
proof -
  have s: "sentences_of ''ab. cd'' = [''ab'', ''cd'']"
    by code_simp
  show ?thesis
    using split_text_nonpositive_size[of 0 "uuid4 quiet_world" "''ab. cd''" 100] s by simp
qed

text \<open>
  C5 as stated fails: with \<open>chunk_size = 0\<close> the text \<open>abc\<close> is not rejected, it gives
  the chunk \<open>abc.\<close>
\<close>

theorem split_text_zero_size_yields_chunk:
  "map chunk_text (split_text (uuid4 quiet_world) ''abc'' 0 100) = [''abc.'']"
  by code_simp

section \<open>The chunker on a text shorter than the chunk size\<close>

lemma paragraph_loop_short:
  "0 \<le> sz \<Longrightarrow> sz + (\<Sum>p\<leftarrow>ps. int (length p) + 2) \<le> n + 2 \<Longrightarrow>
     (\<exists>cur' sz'. paragraph_loop uuid n ps (chunks, cur, sz) = (chunks, cur', sz') \<and>
        (cur' \<noteq> [] \<longleftrightarrow> cur \<noteq> [] \<or> stripped_nonempty ps \<noteq> []))"
proof (induction ps arbitrary: cur sz)
  case Nil
  then show ?case by (simp add: stripped_nonempty_def)
next
  case (Cons p ps)
  have tail: "0 \<le> (\<Sum>p\<leftarrow>ps. int (length p) + 2)"
    by (rule sum_list_nonneg) auto
  show ?case
  proof (cases "py_strip p = []")
    case True
    from Cons.prems have "sz + (\<Sum>p\<leftarrow>ps. int (length p) + 2) \<le> n + 2" by simp
    from Cons.IH[OF Cons.prems(1) this, of cur] True
    show ?thesis by (simp add: stripped_nonempty_def)
  next
    case False
    have le: "int (length (py_strip p)) \<le> int (length p)"
      using length_py_strip[of p] by simp
    with Cons.prems tail have fit: "\<not> sz + int (length (py_strip p)) > n"
      and short: "\<not> int (length (py_strip p)) > n" by simp_all
    have "0 \<le> sz + int (length (py_strip p)) + 2" using Cons.prems by simp
    moreover have "sz + int (length (py_strip p)) + 2 + (\<Sum>p\<leftarrow>ps. int (length p) + 2) \<le> n + 2"
      using Cons.prems le by simp
    ultimately obtain cur' sz' where
      "paragraph_loop uuid n ps (chunks, cur @ py_strip p @ para_sep, sz + int (length (py_strip p)) + 2)
         = (chunks, cur', sz')" "cur' \<noteq> []"
      using Cons.IH[of "sz + int (length (py_strip p)) + 2" "cur @ py_strip p @ para_sep"] False
      by auto
    with False fit short show ?thesis by (simp add: stripped_nonempty_def Let_def)
  qed
qed

lemma py_split_pieces: "p \<in> set (py_split sep s) \<Longrightarrow> set p \<subseteq> set s"
proof (induction sep s arbitrary: p rule: py_split.induct)
  case (1 sep)
  then show ?case by simp
next
  case (2 sep c cs)
  show ?case
  proof (cases "sep \<noteq> [] \<and> prefix sep (c # cs)")
    case True
    with 2(3) have "p = [] \<or> p \<in> set (py_split sep (drop (length sep) (c # cs)))" by simp
    then show ?thesis
    proof
      assume "p = []"
      then show ?thesis by simp
    next
      assume "p \<in> set (py_split sep (drop (length sep) (c # cs)))"
      with 2(1) True have "set p \<subseteq> set (drop (length sep) (c # cs))" by blast
      then show ?thesis using set_drop_subset by fastforce
    qed
  next
    case False
    obtain a list where al: "py_split sep cs = a # list"
      using py_split_not_Nil[of sep cs] by (cases "py_split sep cs") auto
    with False 2(3) have "p = c # a \<or> p \<in> set list" by auto
    moreover have "set a \<subseteq> set cs" using 2(2)[of a] False al by simp
    moreover have "p \<in> set list \<Longrightarrow> set p \<subseteq> set cs" using 2(2)[of p] False al by simp
    ultimately show ?thesis by auto
  qed
qed

lemma stripped_nonempty_split_iff:
  "stripped_nonempty (py_split para_sep text) \<noteq> [] \<longleftrightarrow> (\<exists>c\<in>set text. \<not> is_space c)"
proof
  assume "stripped_nonempty (py_split para_sep text) \<noteq> []"
  then obtain p where p: "p \<in> set (py_split para_sep text)" "py_strip p \<noteq> []"
    by (auto simp: stripped_nonempty_def filter_empty_conv)
  then obtain c where "c \<in> set p" "\<not> is_space c" by (auto simp: py_strip_Nil_iff)
  with py_split_pieces[OF p(1)] show "\<exists>c\<in>set text. \<not> is_space c" by auto
next
  assume "\<exists>c\<in>set text. \<not> is_space c"
  then obtain c where c: "c \<in> set text" "\<not> is_space c" by auto
  then have "c \<notin> set para_sep" by (auto simp: para_sep_def is_space_def)
  with c py_split_chars[of "text" para_sep] obtain p where
    "p \<in> set (py_split para_sep text)" "c \<in> set p" by auto
  with c have "py_strip p \<noteq> []" by (auto simp: py_strip_Nil_iff)
  with \<open>p \<in> set (py_split para_sep text)\<close> show "stripped_nonempty (py_split para_sep text) \<noteq> []"
    by (auto simp: stripped_nonempty_def filter_empty_conv)
qed

text \<open>
  C6 (as the code has it). A text shorter than \<open>chunk_size\<close> yields exactly one chunk
  when it has a character that is not whitespace, and no chunk otherwise.
\<close>

theorem split_text_short_text:
  assumes "int (length text) < chunk_size"
  shows "length (split_text uuid text chunk_size chunk_overlap)
           = (if \<exists>c\<in>set text. \<not> is_space c then 1 else 0)"
proof -
  have "(\<Sum>p\<leftarrow>py_split para_sep text. int (length p) + 2) = int (length text) + 2"
    using py_split_lengths[of para_sep "text"] by (simp add: para_sep_def)
  with assms have "0 + (\<Sum>p\<leftarrow>py_split para_sep text. int (length p) + 2) \<le> chunk_size + 2"
    by simp
  from paragraph_loop_short[OF _ this, of uuid "[]" "[]"] obtain cur' sz' where
    st: "paragraph_loop uuid chunk_size (py_split para_sep text) ([], [], 0) = ([], cur', sz')"
    and cur': "cur' \<noteq> [] \<longleftrightarrow> stripped_nonempty (py_split para_sep text) \<noteq> []"
    by auto
  show ?thesis
    using cur' by (simp add: split_text_def st save_current_def append_chunk_def stripped_nonempty_split_iff)
qed

theorem split_text_short_text_witness:
  "int (length ''a b'') < 5 \<and> length (split_text (uuid4 quiet_world) ''a b'' 5 100) = 1"
  using split_text_short_text[of "''a b''" 5 "uuid4 quiet_world" 100]
  by (simp add: is_space_def)

text \<open>
  C6 as stated fails on a text that is not empty: the text of one space is shorter than
  \<open>chunk_size = 2\<close> and yields no chunk.
\<close>

theorem split_text_blank_text_no_chunk:
  "int (length '' '') < 2 \<and> '' '' \<noteq> [] \<and>
   length (split_text (uuid4 quiet_world) '' '' 2 100) \<noteq> 1"
  by code_simp

section \<open>Cosine similarity\<close>

text \<open>Vectors of different lengths: \<open>0.0\<close> on every machine, before any arithmetic.\<close>

lemma cosine_similarity_length_mismatch:
  "length vec1 \<noteq> length vec2 \<Longrightarrow> cosine_similarity m vec1 vec2 = Inr (Finite 0)"
  by (simp add: cosine_similarity_def)

section \<open>Order of floats and the stable sort\<close>

lemma fl_lt_not_NaN: "fl_lt a b \<Longrightarrow> a \<noteq> NaN \<and> b \<noteq> NaN"
  by (cases a; cases b) auto

lemma fl_lt_asym: "fl_lt a b \<Longrightarrow> \<not> fl_lt b a"
  by (cases a; cases b) auto

lemma fl_lt_irrefl: "\<not> fl_lt a a"
  by (cases a) auto

lemma fl_lt_imp_le: "fl_lt a b \<Longrightarrow> fl_le a b"
  by (simp add: fl_le_def fl_lt_not_NaN fl_lt_asym)

lemma not_fl_lt_imp_le: "a \<noteq> NaN \<Longrightarrow> b \<noteq> NaN \<Longrightarrow> \<not> fl_lt a b \<Longrightarrow> fl_le b a"
  by (simp add: fl_le_def)

lemma fl_le_trans: "fl_le a b \<Longrightarrow> fl_le b c \<Longrightarrow> fl_le a c"
  unfolding fl_le_def by (cases a; cases b; cases c) auto

lemma set_insort_desc: "set (insort_desc x ys) = insert x (set ys)"
  by (induction ys) auto

lemma length_insort_desc: "length (insort_desc x ys) = Suc (length ys)"
  by (induction ys) auto

lemma set_stable_sort_desc: "set (stable_sort_desc xs) = set xs"
  by (induction xs) (simp_all add: stable_sort_desc_def set_insort_desc)

lemma sorted_desc_insort_desc:
  assumes "res_score x \<noteq> NaN" and "\<forall>y\<in>set ys. res_score y \<noteq> NaN" and "sorted_desc ys"
  shows "sorted_desc (insort_desc x ys)"
  using assms
proof (induction ys)
  case Nil
  then show ?case by (simp add: sorted_desc_def)
next
  case (Cons y ys)
  show ?case
  proof (cases "fl_lt (res_score x) (res_score y)")
    case True
    from Cons.prems have tail: "sorted_desc ys" and nan: "\<forall>z\<in>set ys. res_score z \<noteq> NaN"
      and below: "\<forall>z\<in>set ys. fl_le (res_score z) (res_score y)"
      by (simp_all add: sorted_desc_def)
    from Cons.IH[OF Cons.prems(1) nan tail] have "sorted_desc (insort_desc x ys)" .
    moreover from True have "fl_le (res_score x) (res_score y)" by (rule fl_lt_imp_le)
    ultimately show ?thesis
      using True below by (simp add: sorted_desc_def set_insort_desc)
  next
    case False
    from Cons.prems have "res_score y \<noteq> NaN" by simp
    with Cons.prems(1) False have yx: "fl_le (res_score y) (res_score x)"
      by (simp add: not_fl_lt_imp_le)
    have "\<forall>z\<in>set ys. fl_le (res_score z) (res_score x)"
    proof
      fix z assume "z \<in> set ys"
      with Cons.prems(3) have "fl_le (res_score z) (res_score y)" by (simp add: sorted_desc_def)
      then show "fl_le (res_score z) (res_score x)" using yx by (rule fl_le_trans)
    qed
    with yx Cons.prems(3) False show ?thesis by (simp add: sorted_desc_def)
  qed
qed

lemma sorted_desc_stable_sort_desc:
  "\<forall>x\<in>set xs. res_score x \<noteq> NaN \<Longrightarrow> sorted_desc (stable_sort_desc xs)"
proof (induction xs)
  case Nil
  then show ?case by (simp add: stable_sort_desc_def sorted_desc_def)
next
  case (Cons x xs)
  then have "sorted_desc (insort_desc x (stable_sort_desc xs))"
    by (intro sorted_desc_insort_desc) (simp_all add: set_stable_sort_desc)
  then show ?case by (simp add: stable_sort_desc_def)
qed

lemma sorted_desc_sort_by_score:
  "\<forall>x\<in>set xs. res_score x \<noteq> NaN \<Longrightarrow> sorted_desc (sort_by_score m xs)"
  by (simp add: sort_by_score_def list_all_iff sorted_desc_stable_sort_desc)

text \<open>Equal scores keep their order: a list whose scores are all the same is left as
  it is.\<close>

lemma stable_sort_desc_constant:
  "\<forall>x\<in>set xs. res_score x = c \<Longrightarrow> stable_sort_desc xs = xs"
proof (induction xs)
  case Nil
  then show ?case by (simp add: stable_sort_desc_def)
next
  case (Cons x xs)
  then have "stable_sort_desc xs = xs" by simp
  moreover have "insort_desc x xs = x # xs"
    using Cons.prems by (cases xs) (simp_all add: fl_lt_irrefl)
  ultimately show ?case by (simp add: stable_sort_desc_def)
qed

lemma sort_by_score_constant:
  "c \<noteq> NaN \<Longrightarrow> \<forall>x\<in>set xs. res_score x = c \<Longrightarrow> sort_by_score m xs = xs"
  using stable_sort_desc_constant[of xs c] by (simp add: sort_by_score_def list_all_iff)

section \<open>The keyword search\<close>

lemma py_in_str_sublist: "py_in_str a b \<longleftrightarrow> sublist a b"
  by (induction b) (simp_all add: sublist_Cons_right)

lemma occurs_ignoring_case_lower:
  "occurs_ignoring_case query txt \<longleftrightarrow> py_in_str (py_lower query) (py_lower txt)"
proof
  assume "occurs_ignoring_case query txt"
  then obtain before piece after where
    "txt = before @ piece @ after" "map lower_char piece = map lower_char query"
    by (auto simp: occurs_ignoring_case_def same_ignoring_case_def)
  then have "py_lower txt = py_lower before @ py_lower query @ py_lower after"
    by (simp add: py_lower_def)
  then show "py_in_str (py_lower query) (py_lower txt)"
    unfolding py_in_str_sublist sublist_def by blast
next
  assume "py_in_str (py_lower query) (py_lower txt)"
  then obtain ps ss where "map lower_char txt = ps @ map lower_char query @ ss"
    unfolding py_in_str_sublist sublist_def py_lower_def by blast
  then have "\<exists>before rest. txt = before @ rest \<and> ps = map lower_char before \<and>
               map lower_char query @ ss = map lower_char rest"
    by (simp only: map_eq_append_conv)
  then obtain before rest where
    1: "txt = before @ rest" and 2: "map lower_char query @ ss = map lower_char rest"
    by blast
  from 2 have "\<exists>piece after. rest = piece @ after \<and> map lower_char query = map lower_char piece \<and>
                 ss = map lower_char after"
    by (simp only: append_eq_map_conv)
  then obtain piece after where
    "rest = piece @ after" "map lower_char piece = map lower_char query"
    by auto
  with 1 show "occurs_ignoring_case query txt"
    unfolding occurs_ignoring_case_def same_ignoring_case_def by blast
qed

lemma nominal_score_not_NaN: "nominal_score \<noteq> NaN"
  by (simp add: nominal_score_def)

text \<open>The keyword search returns the first \<open>top_k\<close> case-insensitive matches, in the
  order of the chunks, each with the fixed score.\<close>

lemma fallback_keyword_search_matches:
  "fallback_keyword_search m chunks query top_k = py_slice_to (keyword_matches chunks query) top_k"
proof -
  let ?results = "map (\<lambda>chunk. \<lparr>res_text = chunk_text chunk, res_score = nominal_score,
                                   res_index = chunk_index chunk\<rparr>)
      (filter (\<lambda>chunk. py_in_str (py_lower query) (py_lower (chunk_text chunk))) chunks)"
  have "sort_by_score m ?results = ?results"
    by (rule sort_by_score_constant[OF nominal_score_not_NaN]) auto
  moreover have "keyword_matches chunks query = ?results"
    by (simp add: keyword_matches_def keyword_match_def occurs_ignoring_case_lower)
  ultimately show ?thesis
    by (simp add: fallback_keyword_search_def)
qed

lemma keyword_matches_score:
  "x \<in> set (keyword_matches chunks query) \<Longrightarrow> res_score x = nominal_score"
  by (auto simp: keyword_matches_def keyword_match_def)

section \<open>Search: order and bound\<close>

lemma length_py_slice_to: "0 \<le> k \<Longrightarrow> int (length (py_slice_to xs k)) \<le> k"
  by (simp add: py_slice_to_def)

lemma py_slice_to_take: "0 \<le> k \<Longrightarrow> py_slice_to xs k = take (nat k) xs"
  by (simp add: py_slice_to_def)

lemma sorted_desc_slice: "sorted_desc xs \<Longrightarrow> sorted_desc (py_slice_to xs k)"
  by (simp add: sorted_desc_def py_slice_to_def sorted_wrt_take)

lemma sorted_desc_Nil: "sorted_desc []"
  by (simp add: sorted_desc_def)

lemma sorted_desc_keyword_matches: "sorted_desc (keyword_matches chunks query)"
proof -
  have "stable_sort_desc (keyword_matches chunks query) = keyword_matches chunks query"
    by (rule stable_sort_desc_constant[where c = nominal_score]) (simp add: keyword_matches_score)
  moreover have "sorted_desc (stable_sort_desc (keyword_matches chunks query))"
    by (rule sorted_desc_stable_sort_desc) (simp add: keyword_matches_score nominal_score_not_NaN)
  ultimately show ?thesis by simp
qed

lemma fallback_sorted: "sorted_desc (fallback_keyword_search m chunks query top_k)"
  by (simp add: fallback_keyword_search_matches sorted_desc_slice sorted_desc_keyword_matches)

lemma fallback_bounded:
  "0 \<le> top_k \<Longrightarrow> int (length (fallback_keyword_search m chunks query top_k)) \<le> top_k"
  by (simp add: fallback_keyword_search_matches length_py_slice_to)

lemma vector_search_bounded:
  "vector_search m w d query top_k = Inr results \<Longrightarrow> 0 \<le> top_k \<Longrightarrow>
     int (length results) \<le> top_k"
  by (auto simp: vector_search_def Let_def fallback_bounded length_py_slice_to
           split: sum.splits if_splits)

lemma vector_search_sorted:
  assumes "fs doc_id = Some d"
    and "vector_search m w d query top_k = Inr results"
    and "NaN \<notin> set (similarities m w fs doc_id query)"
  shows "sorted_desc results"
proof -
  from assms(2) obtain chunks vectors where
    c: "json_load (chunks_json d) = Inr chunks" and v: "json_load (vectors_json d) = Inr vectors"
    by (auto simp: vector_search_def split: sum.splits)
  let ?qv = "generate_query_vector w query"
  show ?thesis
  proof (cases "\<not> py_truthy ?qv \<or> py_len ?qv = Inr 0")
    case True
    with assms(2) c v have "results = fallback_keyword_search m chunks query top_k"
      by (auto simp: vector_search_def Let_def split: sum.splits if_splits)
    then show ?thesis by (simp add: fallback_sorted)
  next
    case False
    with assms(2) c v obtain qn candidates where
      qn: "py_len ?qv = Inr qn" and
      l: "similarity_loop m chunks ?qv qn 0 vectors = Inr candidates" and
      r: "results = py_slice_to (sort_by_score m candidates) top_k"
      by (auto simp: vector_search_def Let_def split: sum.splits if_splits)
    from assms(1) c v qn l False
    have "similarities m w fs doc_id query = map res_score candidates"
      by (auto simp: similarities_def Let_def)
    with assms(3) have "\<forall>x\<in>set candidates. res_score x \<noteq> NaN" by force
    then show ?thesis
      unfolding r by (intro sorted_desc_slice sorted_desc_sort_by_score)
  qed
qed

text \<open>Without an API key the search is the keyword search.\<close>

lemma search_without_key:
  "no_key w \<Longrightarrow> fs doc_id = Some d \<Longrightarrow> chunks_json d = Some (Content chunks) \<Longrightarrow>
     vectors_json d = Some (Content vectors) \<Longrightarrow>
     search_vector_db m w fs doc_id query top_k = py_slice_to (keyword_matches chunks query) top_k"
  by (simp add: search_vector_db_def vector_search_def generate_query_vector_def
        fallback_keyword_search_matches)

lemma search_example_without_key:
  "search_vector_db m quiet_world example_store ''d'' query top_k
     = py_slice_to (keyword_matches example_chunks query) top_k"
  by (rule search_without_key[where d = example_dir and vectors = "placeholders example_chunks"])
     (simp_all add: no_key_def quiet_world_def example_store_def example_dir_def)

lemma occurs_example_1: "occurs_ignoring_case ''alpha'' ''Alpha beta''"
  unfolding occurs_ignoring_case_lower by code_simp

lemma occurs_example_2: "occurs_ignoring_case ''alpha'' ''gamma ALPHA''"
  unfolding occurs_ignoring_case_lower by code_simp

lemma keyword_matches_example:
  "keyword_matches example_chunks ''alpha'' =
     [\<lparr>res_text = ''Alpha beta'', res_score = nominal_score, res_index = 0\<rparr>,
      \<lparr>res_text = ''gamma ALPHA'', res_score = nominal_score, res_index = 1\<rparr>]"
  by (simp add: keyword_matches_def keyword_match_def example_chunks_def
        occurs_example_1 occurs_example_2)

text \<open>The run of the cosine path: the query vector \<open>[0.0, 1.0]\<close> against the stored
  \<open>[1.0, 0.0]\<close> and \<open>[0.0, 1.0]\<close> gives the similarities \<open>0.0\<close> and \<open>1.0\<close>.\<close>

lemma query_axis_vector:
  "generate_query_vector query_axis_world query = JList [JFloat (Finite 0), JFloat (Finite 1)]"
  by (simp add: generate_query_vector_def query_axis_world_def keyed_world_def quiet_world_def
        no_key_def query_vector_of_reply_def)

lemma cosine_axes:
  "cosine_similarity exact_machine [PFloat (Finite 0), PFloat (Finite 1)]
     [PFloat (Finite 1), PFloat (Finite 0)] = Inr (Finite 0)"
  "cosine_similarity exact_machine [PFloat (Finite 0), PFloat (Finite 1)]
     [PFloat (Finite 0), PFloat (Finite 1)] = Inr (Finite 1)"
  by (simp_all add: cosine_similarity_def sum_of_products_def magnitude_def exact_machine_def)

lemma similarity_loop_axes:
  "similarity_loop exact_machine example_chunks (JList [JFloat (Finite 0), JFloat (Finite 1)])
     (Suc (Suc 0)) 0 axes_vectors
   = Inr [\<lparr>res_text = ''Alpha beta'', res_score = Finite 0, res_index = 0\<rparr>,
          \<lparr>res_text = ''gamma ALPHA'', res_score = Finite 1, res_index = 1\<rparr>]"
  by (simp add: cosine_similarity_json_def py_numbers_def cosine_axes example_chunks_def
        axes_vectors_def)

lemma similarities_axes:
  "similarities exact_machine query_axis_world axes_store ''d'' query = [Finite 0, Finite 1]"
  by (simp add: similarities_def axes_store_def query_axis_vector similarity_loop_axes Let_def
        del: similarity_loop.simps)

lemma search_axes:
  "search_vector_db exact_machine query_axis_world axes_store ''d'' query 1
     = [\<lparr>res_text = ''gamma ALPHA'', res_score = Finite 1, res_index = 1\<rparr>]"
  by (simp add: search_vector_db_def vector_search_def axes_store_def query_axis_vector
        similarity_loop_axes sort_by_score_def stable_sort_desc_def py_slice_to_def Let_def
        del: similarity_loop.simps)

text \<open>
  C3 (as the code has it). On every path (cosine ranking, keyword fallback, empty
  result) and for every \<open>top_k >= 0\<close>, the result of \<open>search_vector_db\<close> has at most
  \<open>top_k\<close> elements. It is sorted by score in descending order whenever none of the
  similarities computed for the query is NaN, which on the keyword path is always.
\<close>

theorem search_vector_db_sorted_bounded:
  "(0 \<le> top_k \<longrightarrow> int (length (search_vector_db m w fs doc_id query top_k)) \<le> top_k) \<and>
   (NaN \<notin> set (similarities m w fs doc_id query) \<longrightarrow>
      sorted_desc (search_vector_db m w fs doc_id query top_k))"
proof (intro conjI impI)
  assume "0 \<le> top_k"
  then show "int (length (search_vector_db m w fs doc_id query top_k)) \<le> top_k"
    by (auto simp: search_vector_db_def keyword_retry_def fallback_bounded vector_search_bounded
             split: option.splits sum.splits)
next
  assume "NaN \<notin> set (similarities m w fs doc_id query)"
  then show "sorted_desc (search_vector_db m w fs doc_id query top_k)"
    by (auto simp: search_vector_db_def keyword_retry_def sorted_desc_Nil fallback_sorted
             intro: vector_search_sorted split: option.splits sum.splits)
qed

theorem search_vector_db_sorted_bounded_witness:
  "(0::int) \<le> 1 \<and>
   NaN \<notin> set (similarities exact_machine query_axis_world axes_store ''d'' ''q'') \<and>
   search_vector_db exact_machine query_axis_world axes_store ''d'' ''q'' 1
     = [\<lparr>res_text = ''gamma ALPHA'', res_score = Finite 1, res_index = 1\<rparr>] \<and>
   int (length (search_vector_db exact_machine query_axis_world axes_store ''d'' ''q'' 1)) \<le> 1 \<and>
   sorted_desc (search_vector_db exact_machine query_axis_world axes_store ''d'' ''q'' 1)"
proof -
  have n: "NaN \<notin> set (similarities exact_machine query_axis_world axes_store ''d'' ''q'')"
    by (simp add: similarities_axes)
  from search_vector_db_sorted_bounded
         [of 1 exact_machine query_axis_world axes_store "''d''" "''q''"] n
  have "int (length (search_vector_db exact_machine query_axis_world axes_store ''d'' ''q'' 1)) \<le> 1"
    and "sorted_desc (search_vector_db exact_machine query_axis_world axes_store ''d'' ''q'' 1)"
    by simp_all
  with n show ?thesis
    by (simp add: search_axes)
qed

text \<open>
  C3 as stated fails for a negative \<open>top_k\<close>: the slice \<open>results[:-1]\<close> drops the last
  of the two keyword matches and returns one result, which is more than \<open>-1\<close>.
\<close>

theorem search_negative_top_k_unbounded:
  "\<not> int (length (search_vector_db exact_machine quiet_world example_store ''d'' ''alpha'' (- 1)))
       \<le> - 1"
  by (simp add: search_example_without_key keyword_matches_example py_slice_to_def)

section \<open>Search: the exception handler\<close>

lemma vector_search_damaged:
  "chunks_json d = Some (Content chunks) \<Longrightarrow> vectors_json d = Some Corrupt \<Longrightarrow>
     vector_search m w d query top_k = Inl JSONDecodeError"
  by (simp add: vector_search_def)

text \<open>
  C10. When the collection's two files exist and the vector-search path raises any
  exception, \<open>search_vector_db\<close> raises nothing. If the chunks file is readable it
  returns the result of the keyword search: the first \<open>top_k\<close> chunks, in order, whose
  text contains the query ignoring case, each with the fixed score. The keyword search
  of the handler fails exactly when the chunks file cannot be read, and only then is
  the result the empty list of the failure branch.
\<close>

theorem search_vector_db_falls_back:
  assumes "fs doc_id = Some d"
    and "chunks_json d \<noteq> None"
    and "vectors_json d \<noteq> None"
    and "vector_search m w d query top_k = Inl e"
  shows "(\<forall>chunks. chunks_json d = Some (Content chunks) \<longrightarrow>
            keyword_retry m d query top_k = Inr (py_slice_to (keyword_matches chunks query) top_k) \<and>
            search_vector_db m w fs doc_id query top_k
              = py_slice_to (keyword_matches chunks query) top_k) \<and>
         ((\<exists>e2. keyword_retry m d query top_k = Inl e2) \<longleftrightarrow> chunks_json d = Some Corrupt) \<and>
         (chunks_json d = Some Corrupt \<longrightarrow> search_vector_db m w fs doc_id query top_k = [])"
proof -
  from assms(2) obtain a where a: "chunks_json d = Some a" by auto
  show ?thesis
    using assms a
    by (cases a)
       (auto simp: search_vector_db_def keyword_retry_def fallback_keyword_search_matches)
qed

theorem search_vector_db_falls_back_witness:
  "damaged_store ''d'' = Some (example_dir\<lparr>vectors_json := Some Corrupt\<rparr>) \<and>
   chunks_json (example_dir\<lparr>vectors_json := Some Corrupt\<rparr>) = Some (Content example_chunks) \<and>
   vector_search exact_machine keyed_world (example_dir\<lparr>vectors_json := Some Corrupt\<rparr>) ''alpha'' 5
     = Inl JSONDecodeError \<and>
   search_vector_db exact_machine keyed_world damaged_store ''d'' ''alpha'' 5
     = [\<lparr>res_text = ''Alpha beta'', res_score = nominal_score, res_index = 0\<rparr>,
        \<lparr>res_text = ''gamma ALPHA'', res_score = nominal_score, res_index = 1\<rparr>]"
proof -
  let ?d = "example_dir\<lparr>vectors_json := Some Corrupt\<rparr>"
  have 1: "damaged_store ''d'' = Some ?d"
    by (simp add: damaged_store_def)
  have c: "chunks_json ?d = Some (Content example_chunks)"
    by (simp add: example_dir_def)
  then have 2: "chunks_json ?d \<noteq> None"
    by simp
  have 3: "vectors_json ?d \<noteq> None"
    by simp
  have 4: "vector_search exact_machine keyed_world ?d ''alpha'' 5 = Inl JSONDecodeError"
    by (rule vector_search_damaged[OF c]) simp
  from search_vector_db_falls_back
         [of damaged_store "''d''" ?d exact_machine keyed_world "''alpha''" 5 JSONDecodeError,
          OF 1 2 3 4] c
  have "search_vector_db exact_machine keyed_world damaged_store ''d'' ''alpha'' 5
          = py_slice_to (keyword_matches example_chunks ''alpha'') 5"
    by simp
  with 1 c 4 show ?thesis
    by (simp add: keyword_matches_example py_slice_to_def)
qed

section \<open>The reranker\<close>

text \<open>
  C4. When the rerank provider is unreachable (no API key, the call or anything else in
  the \<open>try\<close> block raises, or the reply has no \<open>results\<close> field), \<open>rerank_results\<close>
  returns \<open>documents[:top_k]\<close>, the first \<open>top_k\<close> candidates, unchanged.
\<close>

theorem rerank_results_fallback:
  assumes "no_key w \<or> rerank_reply w = None \<or>
           (\<exists>e. rerank_try w documents top_k = Inl e) \<or>
           (\<exists>response_data. rerank_reply w = Some response_data \<and>
              py_contains_str ''results'' response_data \<noteq> Inr True)"
  shows "rerank_results w query documents top_k = py_slice_to documents top_k \<and>
         (0 \<le> top_k \<longrightarrow> rerank_results w query documents top_k = take (nat top_k) documents)"
proof -
  have "rerank_results w query documents top_k = py_slice_to documents top_k"
    using assms
    by (auto simp: rerank_results_def rerank_try_def split: option.splits sum.splits bool.splits)
  then show ?thesis by (simp add: py_slice_to_take)
qed

theorem rerank_results_fallback_witness:
  "no_key quiet_world \<and> (0::int) \<le> 1 \<and>
   rerank_results quiet_world ''q'' example_documents 1 = take (nat 1) example_documents"
proof -
  have k: "no_key quiet_world"
    by (simp add: no_key_def quiet_world_def)
  from rerank_results_fallback[OF disjI1, OF k, of "''q''" example_documents 1]
  have "rerank_results quiet_world ''q'' example_documents 1 = take (nat 1) example_documents"
    by (simp add: py_slice_to_def)
  with k show ?thesis by simp
qed

text \<open>
  C7. The success path returns every result with a valid index and never truncates to
  \<open>top_k\<close>: with \<open>top_k = 1\<close>, two candidates and a reply listing both, \<open>rerank_results\<close>
  returns two documents.
\<close>

theorem rerank_results_exceeds_top_k:
  "rerank_results long_rerank_world ''q'' example_documents 1 =
     [\<lparr>res_text = ''y'', res_score = JFloat (Finite 0.75), res_index = 1\<rparr>,
      \<lparr>res_text = ''x'', res_score = JFloat (Finite 0.125), res_index = 0\<rparr>]"
  by code_simp

section \<open>The embedding adapter\<close>

text \<open>Placeholders are aligned with the chunks: this is what every failure branch of
  \<open>_generate_vectors\<close> appends for a batch.\<close>

lemma placeholders_aligned:
  "length (placeholders chunks) = length chunks \<and>
   map vec_id (placeholders chunks) = map chunk_id chunks"
  by (simp add: placeholders_def placeholder_def)

text \<open>
  C2. With the key set and the reply \<open>{"data": []}\<close>, \<open>_generate_vectors\<close> returns no
  vector for two chunks: the branch that reads \<open>data\<close> appends one vector per item of the
  reply and pads nothing.
\<close>

theorem generate_vectors_short_reply:
  "generate_vectors short_embeddings_world example_chunks = []"
  by code_simp

section \<open>The store: failed creation\<close>

text \<open>
  C1 (as the code has it). When \<open>create_vector_db\<close> returns failure, no vectors file
  was present for the id before the call, and the failure is not in dumping the
  vectors, then \<open>get_vector_db_status\<close> reports the collection as not existing.
\<close>

theorem create_failure_not_exists:
  assumes "create_vector_db w fs doc_id doc_content doc_metadata chunk_size chunk_overlap = (False, fs')"
    and "case fs doc_id of None \<Rightarrow> True | Some d \<Rightarrow> vectors_json d = None"
    and "io_fault w \<noteq> Some DumpVectors"
  shows "\<not> exists_flag (get_vector_db_status fs' doc_id)"
  using assms
  by (auto simp: create_vector_db_def get_vector_db_status_def Let_def empty_dir_def
           split: if_splits option.splits)

theorem create_failure_not_exists_witness:
  "fst (create_vector_db vectors_fault_world empty_store ''d'' ''abc'' [] 500 100) = False \<and>
   empty_store ''d'' = None \<and>
   io_fault vectors_fault_world \<noteq> Some DumpVectors \<and>
   \<not> exists_flag (get_vector_db_status
       (snd (create_vector_db vectors_fault_world empty_store ''d'' ''abc'' [] 500 100)) ''d'')"
proof -
  let ?r = "create_vector_db vectors_fault_world empty_store ''d'' ''abc'' [] 500 100"
  have f: "fst ?r = False"
    by (simp add: create_vector_db_def vectors_fault_world_def quiet_world_def Let_def)
  then have r: "?r = (False, snd ?r)"
    by (simp add: prod_eq_iff)
  have e: "empty_store ''d'' = None"
    by (simp add: empty_store_def)
  have i: "io_fault vectors_fault_world \<noteq> Some DumpVectors"
    by (simp add: vectors_fault_world_def quiet_world_def)
  from create_failure_not_exists[OF r _ i] e f i show ?thesis
    by simp
qed

text \<open>
  C1 as stated fails when a collection existed before the call: creation over the
  complete collection of document \<open>d\<close> fails at opening the metadata file, nothing is
  removed, and the status still reports the collection as existing.
\<close>

theorem create_failure_still_exists:
  "fst (create_vector_db metadata_fault_world example_store ''d'' ''abc'' [] 500 100) = False \<and>
   exists_flag (get_vector_db_status
     (snd (create_vector_db metadata_fault_world example_store ''d'' ''abc'' [] 500 100)) ''d'') = True"
  by code_simp

end
